theory Spec2Isabelle
  imports Main
begin

section \<open>Python values shared by the three operations\<close>

text \<open>
  The three operations of \<^verbatim>\<open>cve202344487.py\<close> wrap their whole body in
  \<^verbatim>\<open>try: ... except Exception as e:\<close>. An exception is a value here: its class name
  and the text \<^verbatim>\<open>str(e)\<close> that the handlers format into their message. The calls
  modelled below raise members of \<^verbatim>\<open>Exception\<close> only (\<^verbatim>\<open>ValueError\<close>,
  \<^verbatim>\<open>KeyError\<close>, \<^verbatim>\<open>OSError\<close>, the protocol errors of \<^verbatim>\<open>h2\<close>, ...); an
  operation returns \<open>Inr v\<close> when it returns \<open>v\<close> and \<open>Inl e\<close> when \<open>e\<close> leaves it.
  Strings are byte strings; a Python \<^verbatim>\<open>str\<close> outside ASCII is not modelled.
\<close>

datatype pyexc = PyExc (exc_class: string) (exc_str: string)

text \<open>The pair \<^verbatim>\<open>(status, message)\<close> both probers return.\<close>

type_synonym outcome = "int \<times> string"

section \<open>The result of \<^verbatim>\<open>urlparse\<close>\<close>

text \<open>
  \<^verbatim>\<open>urllib.parse.urlparse\<close> belongs to the standard library, not to this program: it is
  a parameter of the operations that call it, and may raise \<^verbatim>\<open>ValueError\<close>. Of its
  result the program reads \<^verbatim>\<open>scheme\<close>, \<^verbatim>\<open>hostname\<close>, \<^verbatim>\<open>port\<close> and
  \<^verbatim>\<open>path\<close>. \<open>hostname\<close> is \<^verbatim>\<open>None\<close> when the network location has no host.
  \<open>port_text\<close> is the text after the host's colon, \<^verbatim>\<open>None\<close> when there is none or
  it is empty; the \<^verbatim>\<open>port\<close> property computes the number from it on every read.
\<close>

record parsed_url =
  scheme :: string
  hostname :: "string option"
  port_text :: "string option"
  path :: string

definition isdigit :: "string \<Rightarrow> bool" where
  "isdigit s = (s \<noteq> [] \<and> list_all (\<lambda>c. 48 \<le> (of_char c :: nat) \<and> (of_char c :: nat) \<le> 57) s)"

definition int_of_digits :: "string \<Rightarrow> int" where
  "int_of_digits s = foldl (\<lambda>a c. 10 * a + (int (of_char c) - 48)) 0 s"

text \<open>A natural number in decimal, as \<^verbatim>\<open>%d\<close> prints it.\<close>

fun str_of_nat :: "nat \<Rightarrow> string" where
  "str_of_nat n =
     (if n < 10 then [char_of (48 + n)]
      else str_of_nat (n div 10) @ [char_of (48 + n mod 10)])"

text \<open>
  \<^verbatim>\<open>int(s)\<close> of CPython refuses a decimal string of more digits than the interpreter's
  limit, counting leading zeros: \<open>4300\<close> unless the program changes it, and this
  program does not. The exception is a \<^verbatim>\<open>ValueError\<close> with the text below.
\<close>

definition int_max_str_digits :: nat where
  "int_max_str_digits = 4300"

definition digits_limit_message :: "nat \<Rightarrow> string" where
  "digits_limit_message n =
     ''Exceeds the limit ('' @ str_of_nat int_max_str_digits
       @ '' digits) for integer string conversion: value has '' @ str_of_nat n
       @ '' digits; use sys.set_int_max_str_digits() to increase the limit''"

text \<open>
  The \<^verbatim>\<open>port\<close> property of the standard library's parse result:
  \<^verbatim>\<open>
    if port is not None:
        if port.isdigit() and port.isascii():
            port = int(port)
        else:
            raise ValueError(f"Port could not be cast to integer value as {port!r}")
        if not (0 <= port <= 65535):
            raise ValueError("Port out of range 0-65535")
    return port
  \<close>
  \<^verbatim>\<open>int(port)\<close> raises on a text longer than the digit limit, before the range is
  looked at.
\<close>

definition port :: "parsed_url \<Rightarrow> pyexc + int option" where
  "port p =
     (case port_text p of
        None \<Rightarrow> Inr None
      | Some t \<Rightarrow>
          if isdigit t then
            (if int_max_str_digits < length t
             then Inl (PyExc ''ValueError'' (digits_limit_message (length t)))
             else if 0 \<le> int_of_digits t \<and> int_of_digits t \<le> 65535
             then Inr (Some (int_of_digits t))
             else Inl (PyExc ''ValueError'' ''Port out of range 0-65535''))
          else Inl (PyExc ''ValueError''
                 (''Port could not be cast to integer value as '' @ [CHR 0x27] @ t @ [CHR 0x27])))"

section \<open>Target resolver: \<^verbatim>\<open>extract_hostname_port_uri\<close>\<close>

text \<open>
  The function returns a tuple whose components change type with the branch: the
  host is a string or the integer \<open>-1\<close>, the port an integer or the pair
  \<^verbatim>\<open>(80, 443)\<close>.
\<close>

datatype hostname_val = HostStr string | HostInt int

datatype port_val = PortInt int | PortPair int int

type_synonym resolved = "hostname_val \<times> port_val \<times> string"

definition invalid_sentinel :: resolved where
  "invalid_sentinel = (HostInt (- 1), PortInt (- 1), '''')"

text \<open>
  Lines 190 to 210, the body of the \<^verbatim>\<open>try\<close>. \<^verbatim>\<open>not hostname\<close> holds for
  \<^verbatim>\<open>None\<close> and for the empty string; \<^verbatim>\<open>if port:\<close> fails for \<^verbatim>\<open>None\<close> and
  for \<open>0\<close>.
\<close>

definition extract_body :: "(string \<Rightarrow> pyexc + parsed_url) \<Rightarrow> string \<Rightarrow> pyexc + resolved" where
  "extract_body urlparse url =
     (case urlparse url of
        Inl e \<Rightarrow> Inl e
      | Inr parsed_url \<Rightarrow>
          (case port parsed_url of
             Inl e \<Rightarrow> Inl e
           | Inr prt \<Rightarrow>
               (let uri = (if path parsed_url = '''' then ''/'' else path parsed_url);
                    by_scheme = (\<lambda>h.
                      if scheme parsed_url = ''http'' then (HostStr h, PortInt 80, uri)
                      else if scheme parsed_url = ''https'' then (HostStr h, PortInt 443, uri)
                      else (HostStr h, PortPair 80 443, uri))
                in
                case hostname parsed_url of
                  None \<Rightarrow> Inr invalid_sentinel
                | Some h \<Rightarrow>
                    if h = '''' then Inr invalid_sentinel
                    else
                      (case prt of
                         None \<Rightarrow> Inr (by_scheme h)
                       | Some n \<Rightarrow>
                           if n \<noteq> 0 then Inr (HostStr h, PortInt n, uri)
                           else Inr (by_scheme h)))))"

text \<open>Lines 189 to 212: every exception of the body becomes the sentinel.\<close>

definition extract_hostname_port_uri ::
    "(string \<Rightarrow> pyexc + parsed_url) \<Rightarrow> string \<Rightarrow> pyexc + resolved" where
  "extract_hostname_port_uri urlparse url =
     (case extract_body urlparse url of
        Inl e \<Rightarrow> Inr invalid_sentinel
      | Inr r \<Rightarrow> Inr r)"

text \<open>
  The Target of the data model: a non-empty host, a port in \<open>[1, 65535]\<close> or the pair
  of candidate ports, and a path.
\<close>

fun is_target :: "resolved \<Rightarrow> bool" where
  "is_target (HostStr h, PortInt n, u) = (h \<noteq> '''' \<and> 1 \<le> n \<and> n \<le> 65535 \<and> u \<noteq> '''')"
| "is_target (HostStr h, PortPair a b, u) = (h \<noteq> '''' \<and> a = 80 \<and> b = 443 \<and> u \<noteq> '''')"
| "is_target (HostInt v, q, u) = False"

section \<open>Negotiation prober: \<^verbatim>\<open>check_http2_support\<close>\<close>

text \<open>
  \<^verbatim>\<open>proxies\<close> is a dictionary from strings to strings, in insertion order; it is
  true when it is not empty. A missing key raises \<^verbatim>\<open>KeyError\<close>, whose text is the
  quoted key.
\<close>

type_synonym pydict = "(string \<times> string) list"

definition getitem :: "pydict \<Rightarrow> string \<Rightarrow> pyexc + string" where
  "getitem d k =
     (case map_of d k of
        None \<Rightarrow> Inl (PyExc ''KeyError'' ([CHR 0x27] @ k @ [CHR 0x27]))
      | Some v \<Rightarrow> Inr v)"

text \<open>The keyword arguments \<^verbatim>\<open>client_options\<close> given to \<^verbatim>\<open>httpx.Client\<close>.\<close>

record client_options =
  http2 :: bool
  verify :: bool
  proxies_opt :: "pydict option"

text \<open>Lines 68 to 78.\<close>

definition build_client_options :: "pydict \<Rightarrow> pyexc + client_options" where
  "build_client_options proxies =
     (if proxies \<noteq> [] then
        (case getitem proxies ''http'' of
           Inl e \<Rightarrow> Inl e
         | Inr ph \<Rightarrow>
             (case getitem proxies ''https'' of
                Inl e \<Rightarrow> Inl e
              | Inr ps \<Rightarrow>
                  Inr \<lparr>http2 = True, verify = False,
                       proxies_opt = Some [(''http://'', ph), (''https://'', ps)]\<rparr>))
      else Inr \<lparr>http2 = True, verify = False, proxies_opt = None\<rparr>)"

text \<open>
  \<open>client_get opts url\<close> stands for lines 80 and 81: opening the client with the
  options, the one GET request and leaving the \<^verbatim>\<open>with\<close> block. It gives the
  \<^verbatim>\<open>http_version\<close> of the response, or the exception raised on the way.
\<close>

definition check_http2_body ::
    "(client_options \<Rightarrow> string \<Rightarrow> pyexc + string) \<Rightarrow> string \<Rightarrow> pydict \<Rightarrow> pyexc + outcome" where
  "check_http2_body client_get url proxies =
     (case build_client_options proxies of
        Inl e \<Rightarrow> Inl e
      | Inr opts \<Rightarrow>
          (case client_get opts url of
             Inl e \<Rightarrow> Inl e
           | Inr http_version \<Rightarrow>
               if http_version = ''HTTP/2'' then Inr (1, '''')
               else Inr (0, http_version)))"

definition check_http2_support ::
    "(client_options \<Rightarrow> string \<Rightarrow> pyexc + string) \<Rightarrow> string \<Rightarrow> pydict \<Rightarrow> pyexc + outcome" where
  "check_http2_support client_get url proxies =
     (case check_http2_body client_get url proxies of
        Inl e \<Rightarrow> Inr (- 1, ''check_http2_support - '' @ exc_str e)
      | Inr r \<Rightarrow> Inr r)"

section \<open>Reset prober: \<^verbatim>\<open>send_rst_stream_h2\<close>\<close>

subsection \<open>The objects the prober creates\<close>

datatype cert_reqs = CERT_NONE | CERT_OPTIONAL | CERT_REQUIRED

record ssl_context =
  check_hostname :: bool
  verify_mode :: cert_reqs

text \<open>
  A connection object of \<^verbatim>\<open>http.client\<close>: its class (\<open>HTTPSConnection\<close> wraps the
  socket in TLS with \<open>conn_context\<close>, \<open>HTTPConnection\<close> does not), the endpoint it
  connects to, and the target of the CONNECT tunnel once \<^verbatim>\<open>set_tunnel\<close> was called.
\<close>

datatype conn_class = HTTPConnection | HTTPSConnection

record connection =
  conn_class :: conn_class
  conn_host :: "string option"
  conn_port :: "int option"
  conn_timeout :: int
  conn_context :: "ssl_context option"
  tunnel :: "(string \<times> int) option"

text \<open>
  An event of \<^verbatim>\<open>h2\<close>: its class name and its \<^verbatim>\<open>stream_id\<close> attribute, \<open>None\<close>
  when \<^verbatim>\<open>hasattr(event, 'stream_id')\<close> is false.
\<close>

datatype event = Event (event_name: string) (stream_id_attr: "int option")

subsection \<open>The calls to the outside and their trace\<close>

datatype action =
    Call_create_default_context
  | Call_init connection
  | Call_set_tunnel string int
  | Call_connect connection
  | Call_H2Connection
  | Call_initiate_connection
  | Call_data_to_send
  | Call_send string
  | Call_send_headers int "(string \<times> string) list"
  | Call_recv int
  | Call_receive_data string
  | Call_reset_stream int
  | Call_get_next_available_stream_id
  | Call_close

text \<open>
  The libraries (\<^verbatim>\<open>ssl\<close>, \<^verbatim>\<open>http.client\<close>, \<^verbatim>\<open>h2\<close>) and the network behind
  them are a parameter: a world \<open>'w\<close> and, for each call the prober makes, what the call
  returns or raises in a world and the world it leaves.
\<close>

record 'w env =
  urlparse :: "string \<Rightarrow> pyexc + parsed_url"
  create_default_context :: "'w \<Rightarrow> (pyexc + ssl_context) \<times> 'w"
  http_init :: "connection \<Rightarrow> 'w \<Rightarrow> (pyexc + unit) \<times> 'w"
  set_tunnel :: "string \<Rightarrow> int \<Rightarrow> 'w \<Rightarrow> (pyexc + unit) \<times> 'w"
  connect :: "connection \<Rightarrow> 'w \<Rightarrow> (pyexc + unit) \<times> 'w"
  h2_init :: "'w \<Rightarrow> (pyexc + unit) \<times> 'w"
  initiate_connection :: "'w \<Rightarrow> (pyexc + unit) \<times> 'w"
  data_to_send :: "'w \<Rightarrow> (pyexc + string) \<times> 'w"
  conn_send :: "string \<Rightarrow> 'w \<Rightarrow> (pyexc + unit) \<times> 'w"
  send_headers :: "int \<Rightarrow> (string \<times> string) list \<Rightarrow> 'w \<Rightarrow> (pyexc + unit) \<times> 'w"
  sock_recv :: "int \<Rightarrow> 'w \<Rightarrow> (pyexc + string) \<times> 'w"
  receive_data :: "string \<Rightarrow> 'w \<Rightarrow> (pyexc + event list) \<times> 'w"
  reset_stream :: "int \<Rightarrow> 'w \<Rightarrow> (pyexc + unit) \<times> 'w"
  get_next_available_stream_id :: "'w \<Rightarrow> (pyexc + int) \<times> 'w"
  conn_close :: "'w \<Rightarrow> (pyexc + unit) \<times> 'w"

text \<open>The state of a run: the world and the calls made so far, oldest first.\<close>

record 'w st =
  world :: 'w
  trace :: "action list"

definition call :: "action \<Rightarrow> ('w \<Rightarrow> (pyexc + 'a) \<times> 'w) \<Rightarrow> 'w st \<Rightarrow> (pyexc + 'a) \<times> 'w st" where
  "call a f s =
     (case f (world s) of (r, w') \<Rightarrow> (r, \<lparr>world = w', trace = trace s @ [a]\<rparr>))"

definition ret :: "'a \<Rightarrow> 'w st \<Rightarrow> (pyexc + 'a) \<times> 'w st" where
  "ret x s = (Inr x, s)"

definition lift :: "pyexc + 'a \<Rightarrow> 'w st \<Rightarrow> (pyexc + 'a) \<times> 'w st" where
  "lift r s = (r, s)"

text \<open>One statement after another: an exception skips what follows.\<close>

definition seq ::
    "('w st \<Rightarrow> (pyexc + 'a) \<times> 'w st) \<Rightarrow> ('a \<Rightarrow> 'w st \<Rightarrow> (pyexc + 'b) \<times> 'w st) \<Rightarrow>
     'w st \<Rightarrow> (pyexc + 'b) \<times> 'w st" where
  "seq m k s = (case m s of (Inl e, s') \<Rightarrow> (Inl e, s') | (Inr x, s') \<Rightarrow> k x s')"

subsection \<open>Lines 108 to 126: the connection object\<close>

text \<open>\<^verbatim>\<open>proxy and proxy != ""\<close>: the proxy to use, if any.\<close>

definition proxy_in_use :: "string option \<Rightarrow> string option" where
  "proxy_in_use proxy =
     (case proxy of None \<Rightarrow> None | Some p \<Rightarrow> if p = '''' then None else Some p)"

definition new_connection ::
    "'w env \<Rightarrow> connection \<Rightarrow> 'w st \<Rightarrow> (pyexc + connection) \<times> 'w st" where
  "new_connection env c = seq (call (Call_init c) (http_init env c)) (\<lambda>_. ret c)"

definition with_tunnel ::
    "'w env \<Rightarrow> string \<Rightarrow> int \<Rightarrow> connection \<Rightarrow> 'w st \<Rightarrow> (pyexc + connection) \<times> 'w st" where
  "with_tunnel env host prt c =
     seq (call (Call_set_tunnel host prt) (set_tunnel env host prt))
       (\<lambda>_. ret (c\<lparr>tunnel := Some (host, prt)\<rparr>))"

definition open_connection ::
    "'w env \<Rightarrow> string \<Rightarrow> int \<Rightarrow> int \<Rightarrow> string option \<Rightarrow> 'w st \<Rightarrow>
     (pyexc + connection) \<times> 'w st" where
  "open_connection env host prt timeout proxy =
     seq (call Call_create_default_context (create_default_context env)) (\<lambda>ctx.
       let ssl_context = ctx\<lparr>check_hostname := False, verify_mode := CERT_NONE\<rparr> in
       case proxy_in_use proxy of
         Some p \<Rightarrow>
           seq (lift (urlparse env p)) (\<lambda>proxy_parts.
             if prt = 443 then
               seq (lift (port proxy_parts)) (\<lambda>proxy_port.
               seq (new_connection env
                      \<lparr>conn_class = HTTPSConnection, conn_host = hostname proxy_parts,
                       conn_port = proxy_port, conn_timeout = timeout,
                       conn_context = Some ssl_context, tunnel = None\<rparr>)
                   (with_tunnel env host prt))
             else
               seq (lift (port proxy_parts)) (\<lambda>proxy_port.
               seq (new_connection env
                      \<lparr>conn_class = HTTPConnection, conn_host = hostname proxy_parts,
                       conn_port = proxy_port, conn_timeout = timeout,
                       conn_context = None, tunnel = None\<rparr>)
                   (with_tunnel env host prt)))
       | None \<Rightarrow>
           if prt = 443 then
             new_connection env
               \<lparr>conn_class = HTTPSConnection, conn_host = Some host, conn_port = Some prt,
                conn_timeout = timeout, conn_context = Some ssl_context, tunnel = None\<rparr>
           else
             new_connection env
               \<lparr>conn_class = HTTPConnection, conn_host = Some host, conn_port = Some prt,
                conn_timeout = timeout, conn_context = None, tunnel = None\<rparr>)"

subsection \<open>Lines 128 to 139: connecting, the preface and the request\<close>

text \<open>\<^verbatim>\<open>conn.send(h2_conn.data_to_send())\<close>\<close>

definition flush :: "'w env \<Rightarrow> 'w st \<Rightarrow> (pyexc + unit) \<times> 'w st" where
  "flush env =
     seq (call Call_data_to_send (data_to_send env))
       (\<lambda>d. call (Call_send d) (conn_send env d))"

definition establish ::
    "'w env \<Rightarrow> connection \<Rightarrow> string \<Rightarrow> int \<Rightarrow> string \<Rightarrow> 'w st \<Rightarrow> (pyexc + unit) \<times> 'w st" where
  "establish env conn host stream_id uri_path =
     seq (call (Call_connect conn) (connect env conn)) (\<lambda>_.
     seq (call Call_H2Connection (h2_init env)) (\<lambda>_.
     seq (call Call_initiate_connection (initiate_connection env)) (\<lambda>_.
     seq (flush env) (\<lambda>_.
       let headers = [('':method'', ''GET''), ('':authority'', host),
                      ('':scheme'', ''https''), ('':path'', uri_path)] in
       seq (call (Call_send_headers stream_id headers) (send_headers env stream_id headers)) (\<lambda>_.
       flush env)))))"

subsection \<open>Lines 142 to 172: the receive loop\<close>

text \<open>\<^verbatim>\<open>h2_conn.reset_stream(i)\<close> followed by \<^verbatim>\<open>conn.send(h2_conn.data_to_send())\<close>\<close>

definition reset_and_flush :: "'w env \<Rightarrow> int \<Rightarrow> 'w st \<Rightarrow> (pyexc + unit) \<times> 'w st" where
  "reset_and_flush env i =
     seq (call (Call_reset_stream i) (reset_stream env i)) (\<lambda>_. flush env)"

text \<open>
  Lines 149 to 155, the \<^verbatim>\<open>for\<close> over the events of one read; the result is
  \<^verbatim>\<open>has_sent\<close>. The first event whose \<^verbatim>\<open>stream_id\<close> is the target's is reset and
  ends the \<^verbatim>\<open>for\<close>.
\<close>

fun process_events ::
    "'w env \<Rightarrow> int \<Rightarrow> event list \<Rightarrow> 'w st \<Rightarrow> (pyexc + bool) \<times> 'w st" where
  "process_events env stream_id [] s = (Inr False, s)"
| "process_events env stream_id (ev # evs) s =
     (case stream_id_attr ev of
        None \<Rightarrow> process_events env stream_id evs s
      | Some i \<Rightarrow>
          if i = stream_id then
            seq (reset_and_flush env i) (\<lambda>_. ret True) s
          else process_events env stream_id evs s)"

text \<open>
  How one pass through the body of \<^verbatim>\<open>while True:\<close> ends: \<open>None\<close> when it reaches the
  end of the body and the loop goes round again, otherwise by \<^verbatim>\<open>break\<close>, by
  \<^verbatim>\<open>return\<close> or by an exception.
\<close>

datatype loop_exit = Break | Return outcome | Raise pyexc

definition loop_body :: "'w env \<Rightarrow> int \<Rightarrow> 'w st \<Rightarrow> loop_exit option \<times> 'w st" where
  "loop_body env stream_id s =
     (case call (Call_recv 65535) (sock_recv env 65535) s of
        (Inl e, s1) \<Rightarrow> (Some (Raise e), s1)
      | (Inr data, s1) \<Rightarrow>
          if data = '''' then (Some Break, s1)
          else
            (case call (Call_receive_data data) (receive_data env data) s1 of
               (Inl e, s2) \<Rightarrow> (Some (Raise e), s2)
             | (Inr events, s2) \<Rightarrow>
                 (case process_events env stream_id events s2 of
                    (Inl e, s3) \<Rightarrow> (Some (Raise e), s3)
                  | (Inr has_sent, s3) \<Rightarrow>
                      if has_sent then (Some (Return (1, '''')), s3)
                      else
                        (case call Call_get_next_available_stream_id
                                (get_next_available_stream_id env) s3 of
                           (Inl e, s4) \<Rightarrow> (Some (Raise e), s4)
                         | (Inr available_id, s4) \<Rightarrow>
                             if available_id = 0 then
                               (case reset_and_flush env 1 s4 of
                                  (Inl e, s5) \<Rightarrow> (Some (Raise e), s5)
                                | (Inr _, s5) \<Rightarrow>
                                    (Some (Return (0,
                                       ''Able to send RST_STREAM to stream 1 but could not find any available stream ids'')),
                                     s5))
                             else
                               (case reset_and_flush env available_id s4 of
                                  (Inl e, s5) \<Rightarrow> (Some (Raise e), s5)
                                | (Inr _, s5) \<Rightarrow> (Some (Return (1, '''')), s5))))))"

text \<open>
  \<^verbatim>\<open>while True:\<close> has no bound of its own, so the loop is a partial function: \<open>None\<close>
  is a loop that never ends.
\<close>

partial_function (option) recv_loop ::
    "'w env \<Rightarrow> int \<Rightarrow> 'w st \<Rightarrow> (loop_exit \<times> 'w st) option" where
  "recv_loop env stream_id s =
     (case loop_body env stream_id s of
        (None, s') \<Rightarrow> recv_loop env stream_id s'
      | (Some x, s') \<Rightarrow> Some (x, s'))"

declare recv_loop.simps [code]

subsection \<open>Lines 107 to 177: the prober\<close>

definition on_exception :: "pyexc \<Rightarrow> pyexc + outcome" where
  "on_exception e = Inr (- 1, ''send_rst_stream_h2 - '' @ exc_str e)"

text \<open>Lines 108 to 139, everything before the loop.\<close>

definition handshake ::
    "'w env \<Rightarrow> string \<Rightarrow> int \<Rightarrow> int \<Rightarrow> string \<Rightarrow> int \<Rightarrow> string option \<Rightarrow> 'w st \<Rightarrow>
     (pyexc + unit) \<times> 'w st" where
  "handshake env host prt stream_id uri_path timeout proxy =
     seq (open_connection env host prt timeout proxy)
       (\<lambda>conn. establish env conn host stream_id uri_path)"

text \<open>
  The whole function. The handler of line 176 turns every exception into status \<open>-1\<close>;
  \<^verbatim>\<open>conn.close()\<close> of line 174 is reached from \<^verbatim>\<open>break\<close> only.
\<close>

definition send_rst_stream_h2 ::
    "'w env \<Rightarrow> string \<Rightarrow> int \<Rightarrow> int \<Rightarrow> string \<Rightarrow> int \<Rightarrow> string option \<Rightarrow> 'w st \<Rightarrow>
     ((pyexc + outcome) \<times> 'w st) option" where
  "send_rst_stream_h2 env host prt stream_id uri_path timeout proxy s =
     (case handshake env host prt stream_id uri_path timeout proxy s of
        (Inl e, s1) \<Rightarrow> Some (on_exception e, s1)
      | (Inr _, s1) \<Rightarrow>
          (case recv_loop env stream_id s1 of
             None \<Rightarrow> None
           | Some (Return r, s2) \<Rightarrow> Some (Inr r, s2)
           | Some (Raise e, s2) \<Rightarrow> Some (on_exception e, s2)
           | Some (Break, s2) \<Rightarrow>
               (case call Call_close (conn_close env) s2 of
                  (Inl e, s3) \<Rightarrow> Some (on_exception e, s3)
                | (Inr _, s3) \<Rightarrow> Some (Inr (0, ''No response''), s3))))"

section \<open>Example surroundings\<close>

text \<open>
  A parser that answers as \<^verbatim>\<open>urlparse\<close> does on the addresses used in the examples
  below, and finds no host elsewhere.
\<close>

definition urlparse_examples :: "string \<Rightarrow> pyexc + parsed_url" where
  "urlparse_examples url =
     (if url = ''https://example.com'' then
        Inr \<lparr>scheme = ''https'', hostname = Some ''example.com'', port_text = None,
             path = ''''\<rparr>
      else if url = ''http://example.com:8080/x'' then
        Inr \<lparr>scheme = ''http'', hostname = Some ''example.com'', port_text = Some ''8080'',
             path = ''/x''\<rparr>
      else if url = ''https://example.com:8443'' then
        Inr \<lparr>scheme = ''https'', hostname = Some ''example.com'', port_text = Some ''8443'',
             path = ''''\<rparr>
      else if url = ''https://example.com:99999/'' then
        Inr \<lparr>scheme = ''https'', hostname = Some ''example.com'', port_text = Some ''99999'',
             path = ''/''\<rparr>
      else if url = ''http://example.com:70000/x'' then
        Inr \<lparr>scheme = ''http'', hostname = Some ''example.com'', port_text = Some ''70000'',
             path = ''/x''\<rparr>
      else if url = ''http://proxy.example:3128'' then
        Inr \<lparr>scheme = ''http'', hostname = Some ''proxy.example'', port_text = Some ''3128'',
             path = ''''\<rparr>
      else if url = ''http://[::1'' then Inl (PyExc ''ValueError'' ''Invalid IPv6 URL'')
      else Inr \<lparr>scheme = '''', hostname = None, port_text = None, path = url\<rparr>)"

text \<open>A client that negotiates HTTP/2 with one host, HTTP/1.1 with another and fails elsewhere.\<close>

definition client_get_examples :: "client_options \<Rightarrow> string \<Rightarrow> pyexc + string" where
  "client_get_examples opts url =
     (if url = ''https://h2.example'' then Inr ''HTTP/2''
      else if url = ''https://old.example'' then Inr ''HTTP/1.1''
      else Inl (PyExc ''ConnectError'' ''All connection attempts failed''))"

text \<open>
  Surroundings in which no call raises: every read gives \<open>data\<close>, the protocol-state
  object turns it into \<open>events\<close> and offers \<open>available_id\<close> as its next identifier.
\<close>

definition scripted_env :: "string \<Rightarrow> event list \<Rightarrow> int \<Rightarrow> unit env" where
  "scripted_env data events available_id =
     \<lparr>urlparse = urlparse_examples,
      create_default_context =
        (\<lambda>w. (Inr \<lparr>check_hostname = True, verify_mode = CERT_REQUIRED\<rparr>, w)),
      http_init = (\<lambda>c w. (Inr (), w)),
      set_tunnel = (\<lambda>h p w. (Inr (), w)),
      connect = (\<lambda>c w. (Inr (), w)),
      h2_init = (\<lambda>w. (Inr (), w)),
      initiate_connection = (\<lambda>w. (Inr (), w)),
      data_to_send = (\<lambda>w. (Inr ''frames'', w)),
      conn_send = (\<lambda>d w. (Inr (), w)),
      send_headers = (\<lambda>i hs w. (Inr (), w)),
      sock_recv = (\<lambda>n w. (Inr data, w)),
      receive_data = (\<lambda>d w. (Inr events, w)),
      reset_stream = (\<lambda>i w. (Inr (), w)),
      get_next_available_stream_id = (\<lambda>w. (Inr available_id, w)),
      conn_close = (\<lambda>w. (Inr (), w))\<rparr>"

text \<open>The state before a probe: nothing called yet.\<close>

definition start :: "unit st" where
  "start = \<lparr>world = (), trace = []\<rparr>"


text \<open>The same surroundings, except that the read times out.\<close>

definition timeout_env :: "unit env" where
  "timeout_env =
     (scripted_env '''' [] 3)
       \<lparr>sock_recv := (\<lambda>n w. (Inl (PyExc ''TimeoutError'' ''timed out''), w))\<rparr>"

text \<open>
  The calls of lines 108 to 139 for \<^verbatim>\<open>send_rst_stream_h2("example.com", 443, 1)\<close>
  without a proxy.
\<close>

definition direct_tls_connection :: connection where
  "direct_tls_connection =
     \<lparr>conn_class = HTTPSConnection, conn_host = Some ''example.com'', conn_port = Some 443,
      conn_timeout = 5,
      conn_context = Some \<lparr>check_hostname = False, verify_mode = CERT_NONE\<rparr>,
      tunnel = None\<rparr>"

definition handshake_trace :: "action list" where
  "handshake_trace =
     [Call_create_default_context, Call_init direct_tls_connection,
      Call_connect direct_tls_connection, Call_H2Connection, Call_initiate_connection,
      Call_data_to_send, Call_send ''frames'',
      Call_send_headers 1 [('':method'', ''GET''), ('':authority'', ''example.com''),
        ('':scheme'', ''https''), ('':path'', ''/'')],
      Call_data_to_send, Call_send ''frames'']"




text \<open>The connection objects on which \<^verbatim>\<open>connect()\<close> was called, in order.\<close>

fun connected :: "action list \<Rightarrow> connection list" where
  "connected [] = []"
| "connected (Call_connect c # as) = c # connected as"
| "connected (a # as) = connected as"

section \<open>The loop ends, and what each part adds to the trace\<close>

text \<open>No path through the body of the loop reaches its end: the loop runs once.\<close>

lemma loop_body_exits: "fst (loop_body env stream_id s) \<noteq> None"
  by (simp add: loop_body_def split: prod.splits sum.splits)

lemma recv_loop_once:
  "recv_loop env stream_id s =
     Some (the (fst (loop_body env stream_id s)), snd (loop_body env stream_id s))"
  using loop_body_exits[of env stream_id s]
  by (subst recv_loop.simps) (auto split: prod.splits option.splits)

lemma call_result:
  "f (world s) = (r, w') \<Longrightarrow> call a f s = (r, \<lparr>world = w', trace = trace s @ [a]\<rparr>)"
  by (simp add: call_def)




lemma send_rst_after_handshake:
  "handshake env host prt stream_id uri_path timeout proxy s = (Inr u, s1) \<Longrightarrow>
   loop_body env stream_id s1 = (Some x, s2) \<Longrightarrow>
   send_rst_stream_h2 env host prt stream_id uri_path timeout proxy s =
     (case x of
        Return r \<Rightarrow> Some (Inr r, s2)
      | Raise e \<Rightarrow> Some (on_exception e, s2)
      | Break \<Rightarrow>
          (case call Call_close (conn_close env) s2 of
             (Inl e, s3) \<Rightarrow> Some (on_exception e, s3)
           | (Inr _, s3) \<Rightarrow> Some (Inr (0, ''No response''), s3)))"
  by (simp add: send_rst_stream_h2_def recv_loop_once split: loop_exit.splits)

lemma handshake_scripted:
  "handshake (scripted_env data events a) ''example.com'' 443 1 ''/'' 5 None start =
     (Inr (), \<lparr>world = (), trace = handshake_trace\<rparr>)"
  by (simp add: handshake_def open_connection_def establish_def flush_def new_connection_def
      seq_def call_def ret_def proxy_in_use_def scripted_env_def start_def Let_def
      handshake_trace_def direct_tls_connection_def)



lemma connected_append: "connected (xs @ ys) = connected xs @ connected ys"
  by (induction xs rule: connected.induct) simp_all

lemma open_connection_connected:
  "open_connection env host prt timeout proxy s = (r, s1) \<Longrightarrow>
   connected (trace s1) = connected (trace s)"
  by (auto simp: open_connection_def seq_def call_def ret_def lift_def new_connection_def
      with_tunnel_def Let_def connected_append
      split: prod.splits sum.splits option.splits if_splits)

lemma flush_connected:
  "flush env s = (r, s1) \<Longrightarrow> connected (trace s1) = connected (trace s)"
  by (auto simp: flush_def seq_def call_def connected_append split: prod.splits sum.splits)

lemma establish_connected:
  "establish env conn host stream_id uri_path s = (r, s1) \<Longrightarrow>
   connected (trace s1) = connected (trace s) @ [conn]"
  by (auto simp: establish_def seq_def call_def connected_append Let_def
      dest!: flush_connected split: prod.splits sum.splits)

lemma reset_and_flush_connected:
  "reset_and_flush env i s = (r, s1) \<Longrightarrow> connected (trace s1) = connected (trace s)"
  by (auto simp: reset_and_flush_def seq_def call_def connected_append
      dest!: flush_connected split: prod.splits sum.splits)

lemma process_events_connected:
  "process_events env stream_id events s = (r, s1) \<Longrightarrow>
   connected (trace s1) = connected (trace s)"
  by (induction events)
     (auto simp: seq_def ret_def dest!: reset_and_flush_connected
      split: option.splits if_splits prod.splits sum.splits)

lemma loop_body_connected:
  "loop_body env stream_id s = (x, s1) \<Longrightarrow> connected (trace s1) = connected (trace s)"
  by (auto simp: loop_body_def call_def connected_append
      dest!: reset_and_flush_connected process_events_connected
      split: prod.splits sum.splits if_splits)

lemma open_connection_tls:
  assumes "open_connection env host prt timeout proxy s = (Inr c, s')"
  shows "(conn_class c = HTTPSConnection) = (prt = 443)
       \<and> (prt = 443 \<longrightarrow> (\<exists>ctx. conn_context c = Some ctx \<and> \<not> check_hostname ctx
                                  \<and> verify_mode ctx = CERT_NONE))
       \<and> (prt \<noteq> 443 \<longrightarrow> conn_context c = None)
       \<and> tunnel c = (case proxy_in_use proxy of None \<Rightarrow> None | Some p \<Rightarrow> Some (host, prt))"
  using assms
  by (auto simp: open_connection_def seq_def call_def ret_def lift_def new_connection_def
      with_tunnel_def Let_def split: prod.splits sum.splits option.splits if_splits)

lemma handshake_connected:
  assumes "handshake env host prt stream_id uri_path timeout proxy s = (h, s1)"
  shows "connected (trace s1) = connected (trace s)
       \<or> (\<exists>c s0. open_connection env host prt timeout proxy s = (Inr c, s0)
            \<and> connected (trace s1) = connected (trace s) @ [c])"
proof (cases "open_connection env host prt timeout proxy s")
  case (Pair r s0)
  show ?thesis
  proof (cases r)
    case (Inl e)
    with Pair assms open_connection_connected[of env host prt timeout proxy s r s0]
    show ?thesis by (simp add: handshake_def seq_def)
  next
    case (Inr c)
    with Pair assms have "establish env c host stream_id uri_path s0 = (h, s1)"
      by (simp add: handshake_def seq_def)
    from establish_connected[OF this] open_connection_connected[OF Pair] Pair Inr
    show ?thesis by simp
  qed
qed

lemma send_rst_connected:
  assumes "send_rst_stream_h2 env host prt stream_id uri_path timeout proxy s = Some (r, s')"
    and "handshake env host prt stream_id uri_path timeout proxy s = (h, s1)"
  shows "connected (trace s') = connected (trace s1)"
proof (cases h)
  case (Inl e)
  with assms show ?thesis by (simp add: send_rst_stream_h2_def)
next
  case (Inr u)
  obtain x s2 where lb: "loop_body env stream_id s1 = (Some x, s2)"
    using loop_body_exits[of env stream_id s1] by (cases "loop_body env stream_id s1") auto
  from assms(2) Inr have "handshake env host prt stream_id uri_path timeout proxy s = (Inr u, s1)"
    by simp
  from send_rst_after_handshake[OF this lb] assms(1) loop_body_connected[OF lb]
  show ?thesis
    by (cases x) (auto simp: call_def connected_append split: prod.splits sum.splits)
qed

section \<open>Every call returns a typed value\<close>

lemma digits_limit_message_4301:
  "digits_limit_message 4301 =
     ''Exceeds the limit (4300 digits) for integer string conversion: value has 4301 digits; use sys.set_int_max_str_digits() to increase the limit''"
  by (simp add: digits_limit_message_def int_max_str_digits_def) code_simp

lemma long_port_text_raises:
  "port_text p = Some t \<Longrightarrow> isdigit t \<Longrightarrow> 4300 < length t \<Longrightarrow>
   port p = Inl (PyExc ''ValueError'' (digits_limit_message (length t)))"
  by (simp add: port_def int_max_str_digits_def)

lemma port_range: "port p = Inr (Some n) \<Longrightarrow> 0 \<le> n \<and> n \<le> 65535"
  by (auto simp: port_def split: option.splits if_splits)

lemma extract_never_raises: "extract_hostname_port_uri parse url \<noteq> Inl e"
  by (simp add: extract_hostname_port_uri_def split: sum.splits)

lemma extract_target_or_sentinel:
  "extract_hostname_port_uri parse url = Inr r \<Longrightarrow> is_target r \<or> r = invalid_sentinel"
  by (auto simp: extract_hostname_port_uri_def extract_body_def Let_def
      dest!: port_range split: sum.splits option.splits if_splits)

lemma check_http2_status:
  "\<exists>r. check_http2_support client_get url proxies = Inr r \<and> fst r \<in> {1, 0, - 1}"
  by (auto simp: check_http2_support_def check_http2_body_def split: sum.splits)

lemma send_rst_status:
  "\<exists>r s'. send_rst_stream_h2 env host prt stream_id uri_path timeout proxy s = Some (Inr r, s')
     \<and> fst r \<in> {1, 0, - 1}"
proof (cases "handshake env host prt stream_id uri_path timeout proxy s")
  case (Pair r s1)
  show ?thesis
  proof (cases r)
    case (Inl e)
    with Pair show ?thesis by (simp add: send_rst_stream_h2_def on_exception_def)
  next
    case (Inr u)
    obtain x s2 where lb: "loop_body env stream_id s1 = (Some x, s2)"
      using loop_body_exits[of env stream_id s1] by (cases "loop_body env stream_id s1") auto
    have ret: "x = Return r' \<Longrightarrow> fst r' \<in> {1, 0, - 1}" for r'
      using lb by (auto simp: loop_body_def split: prod.splits sum.splits if_splits)
    from Pair Inr have "handshake env host prt stream_id uri_path timeout proxy s = (Inr u, s1)"
      by simp
    from send_rst_after_handshake[OF this lb] ret show ?thesis
      by (cases x) (auto simp: on_exception_def split: prod.splits sum.splits)
  qed
qed

section \<open>The reset prober's receive loop\<close>







text \<open>
  C5. When the statements before the loop succeed and the read gives no bytes, the
  loop ends by \<^verbatim>\<open>break\<close>, the connection is closed and the prober returns
  \<open>(0, "No response")\<close>, provided \<^verbatim>\<open>conn.close()\<close> raises nothing. No reset was
  sent: the trace grows by the read and the close only.
\<close>

theorem peer_closed_no_response:
  assumes "handshake env host prt stream_id uri_path timeout proxy s = (Inr (), s1)"
    and "sock_recv env 65535 (world s1) = (Inr '''', w2)"
    and "conn_close env w2 = (Inr (), w3)"
  shows "send_rst_stream_h2 env host prt stream_id uri_path timeout proxy s =
     Some (Inr (0, ''No response''),
       \<lparr>world = w3, trace = trace s1 @ [Call_recv 65535, Call_close]\<rparr>)"
proof -
  have "loop_body env stream_id s1 =
     (Some Break, \<lparr>world = w2, trace = trace s1 @ [Call_recv 65535]\<rparr>)"
    using assms(2) by (simp add: loop_body_def call_result)
  from send_rst_after_handshake[OF assms(1) this] assms(3) show ?thesis
    by (simp add: call_def)
qed

theorem peer_closed_no_response_witness:
  "send_rst_stream_h2 (scripted_env '''' [] 3) ''example.com'' 443 1 ''/'' 5 None start =
   Some (Inr (0, ''No response''),
     \<lparr>world = (), trace = handshake_trace @ [Call_recv 65535, Call_close]\<rparr>)"
  using peer_closed_no_response[where env = "scripted_env '''' [] 3"
      and host = "''example.com''" and prt = 443 and stream_id = 1 and uri_path = "''/''"
      and timeout = 5 and proxy = None and s = start
      and ?s1.0 = "\<lparr>world = (), trace = handshake_trace\<rparr>"
      and ?w2.0 = "()" and ?w3.0 = "()"]
  by (simp add: handshake_scripted) (simp add: scripted_env_def)

text \<open>
  C9, where the code leaves the claim. \<^verbatim>\<open>conn.close()\<close> is called on the path
  through \<^verbatim>\<open>break\<close> (third run below) and on no other: when an event for the target
  stream arrives the prober returns \<open>(1, "")\<close> with the connection never closed
  (first run), and when the read raises it returns status \<open>-1\<close>, again without closing
  (second run).
\<close>

theorem early_return_skips_close:
  "map_option (\<lambda>(r, s'). (r, Call_close \<in> set (trace s')))
     (send_rst_stream_h2 (scripted_env ''x'' [Event ''ResponseReceived'' (Some 1)] 3)
        ''example.com'' 443 1 ''/'' 5 None start) = Some (Inr (1, ''''), False)
   \<and> map_option (\<lambda>(r, s'). (r, Call_close \<in> set (trace s')))
     (send_rst_stream_h2 timeout_env ''example.com'' 443 1 ''/'' 5 None start) =
       Some (Inr (- 1, ''send_rst_stream_h2 - timed out''), False)
   \<and> map_option (\<lambda>(r, s'). (r, Call_close \<in> set (trace s')))
     (send_rst_stream_h2 (scripted_env '''' [] 3) ''example.com'' 443 1 ''/'' 5 None start) =
       Some (Inr (0, ''No response''), True)"
  by code_simp

section \<open>The connection of the reset prober\<close>

text \<open>
  C6. In a run of the prober that starts with an empty trace, every connection object
  on which \<^verbatim>\<open>connect()\<close> is called is an \<open>HTTPSConnection\<close> exactly when the target
  port is \<open>443\<close>; it then carries an SSL context with \<open>check_hostname\<close> off and
  \<open>verify_mode\<close> \<open>CERT_NONE\<close>, and carries no context otherwise. With a proxy in use
  the object has a tunnel to the target host and port, without one it has none.
\<close>

theorem tls_iff_port_443:
  assumes "send_rst_stream_h2 env host prt stream_id uri_path timeout proxy s = Some (r, s')"
    and "trace s = []"
    and "c \<in> set (connected (trace s'))"
  shows "(conn_class c = HTTPSConnection) = (prt = 443)
       \<and> (prt = 443 \<longrightarrow> (\<exists>ctx. conn_context c = Some ctx \<and> \<not> check_hostname ctx
                                  \<and> verify_mode ctx = CERT_NONE))
       \<and> (prt \<noteq> 443 \<longrightarrow> conn_context c = None)
       \<and> tunnel c = (case proxy_in_use proxy of None \<Rightarrow> None | Some p \<Rightarrow> Some (host, prt))"
proof -
  obtain h s1 where hs: "handshake env host prt stream_id uri_path timeout proxy s = (h, s1)"
    by (cases "handshake env host prt stream_id uri_path timeout proxy s")
  from send_rst_connected[OF assms(1) hs] assms(3) have "c \<in> set (connected (trace s1))"
    by simp
  with handshake_connected[OF hs] assms(2)
  obtain s0 where "open_connection env host prt timeout proxy s = (Inr c, s0)"
    by auto
  from open_connection_tls[OF this] show ?thesis .
qed

theorem tls_iff_port_443_witness:
  "connected (trace (snd (the (send_rst_stream_h2 (scripted_env '''' [] 3)
      ''example.com'' 443 1 ''/'' 5 None start)))) = [direct_tls_connection]
   \<and> conn_class direct_tls_connection = HTTPSConnection
   \<and> conn_context direct_tls_connection =
       Some \<lparr>check_hostname = False, verify_mode = CERT_NONE\<rparr>
   \<and> tunnel direct_tls_connection = None
   \<and> connected (trace (snd (the (send_rst_stream_h2 (scripted_env '''' [] 3)
      ''example.com'' 80 1 ''/'' 5 (Some ''http://proxy.example:3128'') start)))) =
       [\<lparr>conn_class = HTTPConnection, conn_host = Some ''proxy.example'',
         conn_port = Some 3128, conn_timeout = 5, conn_context = None,
         tunnel = Some (''example.com'', 80)\<rparr>]"
proof -
  have run1: "send_rst_stream_h2 (scripted_env '''' [] 3) ''example.com'' 443 1 ''/'' 5 None start
      = Some (Inr (0, ''No response''),
          \<lparr>world = (), trace = handshake_trace @ [Call_recv 65535, Call_close]\<rparr>)"
    by code_simp
  have in1: "direct_tls_connection \<in> set (connected (trace
      \<lparr>world = (), trace = handshake_trace @ [Call_recv 65535, Call_close]\<rparr>))"
    by (simp add: handshake_trace_def)
  have tr: "trace start = []" by (simp add: start_def)
  have run2: "connected (trace (snd (the (send_rst_stream_h2 (scripted_env '''' [] 3)
      ''example.com'' 80 1 ''/'' 5 (Some ''http://proxy.example:3128'') start)))) =
       [\<lparr>conn_class = HTTPConnection, conn_host = Some ''proxy.example'',
         conn_port = Some 3128, conn_timeout = 5, conn_context = None,
         tunnel = Some (''example.com'', 80)\<rparr>]"
    by code_simp
  from tls_iff_port_443[OF run1 tr in1] run1 run2 show ?thesis
    by (simp add: handshake_trace_def direct_tls_connection_def)
qed

section \<open>Every call returns\<close>

text \<open>
  C2. Whatever the surroundings answer or raise, the reset prober ends (the loop is not
  entered a second time), no exception leaves it, and its status is \<open>1\<close>, \<open>0\<close> or
  \<open>-1\<close>; the negotiation prober returns with a status among the same three; the
  resolver returns a Target or the invalid sentinel.
\<close>

theorem every_call_returns_typed:
  "(\<exists>r s'. send_rst_stream_h2 env host prt stream_id uri_path timeout proxy s = Some (Inr r, s')
       \<and> fst r \<in> {1, 0, - 1})
   \<and> (\<exists>r. check_http2_support client_get url proxies = Inr r \<and> fst r \<in> {1, 0, - 1})
   \<and> (\<exists>r. extract_hostname_port_uri parse target = Inr r
       \<and> (is_target r \<or> r = invalid_sentinel))"
proof -
  obtain r where "extract_hostname_port_uri parse target = Inr r"
    using extract_never_raises[of parse target]
    by (cases "extract_hostname_port_uri parse target") auto
  with extract_target_or_sentinel[OF this] send_rst_status check_http2_status
  show ?thesis by blast
qed

theorem every_call_returns_typed_witness:
  "(\<exists>r s'. send_rst_stream_h2 timeout_env ''example.com'' 443 1 ''/'' 5 None start
         = Some (Inr r, s') \<and> fst r \<in> {1, 0, - 1})
   \<and> (\<exists>r. check_http2_support client_get_examples ''https://nowhere.example''
         [(''http'', ''http://proxy.example:3128'')] = Inr r \<and> fst r \<in> {1, 0, - 1})
   \<and> (\<exists>r. extract_hostname_port_uri urlparse_examples ''http://[::1'' = Inr r
       \<and> (is_target r \<or> r = invalid_sentinel))"
  by (rule every_call_returns_typed)

section \<open>The negotiation prober\<close>

text \<open>
  C3. Once the client options are built (no proxies, or both proxy keys present): if the
  request gives a response, the prober returns \<open>(1, "")\<close> exactly when the version
  string is \<open>"HTTP/2"\<close>, and \<open>(0, version)\<close> for every other version string; if the
  request raises, it returns \<open>-1\<close> with a message that ends in the exception's text.
\<close>

theorem negotiation_outcome:
  assumes "build_client_options proxies = Inr opts"
  shows "(client_get opts url = Inr v \<longrightarrow>
            (check_http2_support client_get url proxies = Inr (1, '''')) = (v = ''HTTP/2'')
          \<and> (v \<noteq> ''HTTP/2'' \<longrightarrow> check_http2_support client_get url proxies = Inr (0, v)))
       \<and> (client_get opts url = Inl e \<longrightarrow>
            check_http2_support client_get url proxies =
              Inr (- 1, ''check_http2_support - '' @ exc_str e))"
  using assms by (simp add: check_http2_support_def check_http2_body_def)

theorem negotiation_outcome_witness:
  "check_http2_support client_get_examples ''https://h2.example'' [] = Inr (1, '''')
   \<and> check_http2_support client_get_examples ''https://old.example'' [] = Inr (0, ''HTTP/1.1'')
   \<and> check_http2_support client_get_examples ''https://nowhere.example'' [] =
       Inr (- 1, ''check_http2_support - All connection attempts failed'')"
proof -
  have opts: "build_client_options [] = Inr \<lparr>http2 = True, verify = False, proxies_opt = None\<rparr>"
    by (simp add: build_client_options_def)
  from negotiation_outcome[OF opts, of client_get_examples "''https://h2.example''" "''HTTP/2''"
      "PyExc '''' ''''"]
    negotiation_outcome[OF opts, of client_get_examples "''https://old.example''" "''HTTP/1.1''"
      "PyExc '''' ''''"]
    negotiation_outcome[OF opts, of client_get_examples "''https://nowhere.example''" "''''"
      "PyExc ''ConnectError'' ''All connection attempts failed''"]
  show ?thesis by (simp add: client_get_examples_def)
qed

section \<open>The target resolver\<close>

text \<open>
  C7, as the code has it. When the parse finds a non-empty host and the text of the
  explicit port is a decimal number from \<open>1\<close> to \<open>65535\<close> written with no more
  digits than \<^verbatim>\<open>int\<close> accepts (\<open>4300\<close>), the resolver returns that number as the
  port, whatever the scheme, together with the host and the path (\<open>"/"\<close> for an empty
  path).
\<close>

theorem explicit_port_preserved:
  assumes "parse url = Inr p" and "hostname p = Some h" and "h \<noteq> ''''"
    and "port_text p = Some t" and "isdigit t" and "length t \<le> 4300"
    and "1 \<le> int_of_digits t" and "int_of_digits t \<le> 65535"
  shows "extract_hostname_port_uri parse url =
     Inr (HostStr h, PortInt (int_of_digits t), if path p = '''' then ''/'' else path p)"
  using assms
  by (simp add: extract_hostname_port_uri_def extract_body_def port_def int_max_str_digits_def)

theorem explicit_port_preserved_witness:
  "extract_hostname_port_uri urlparse_examples ''http://example.com:8080/x'' =
     Inr (HostStr ''example.com'', PortInt 8080, ''/x'')
   \<and> extract_hostname_port_uri urlparse_examples ''https://example.com:8443'' =
     Inr (HostStr ''example.com'', PortInt 8443, ''/'')"
proof -
  have d1: "isdigit ''8080''" and v1: "int_of_digits ''8080'' = 8080"
    and d2: "isdigit ''8443''" and v2: "int_of_digits ''8443'' = 8443"
    by (simp_all add: isdigit_def int_of_digits_def)
  from explicit_port_preserved[where parse = urlparse_examples
      and url = "''http://example.com:8080/x''" and h = "''example.com''" and t = "''8080''"
      and p = "\<lparr>scheme = ''http'', hostname = Some ''example.com'', port_text = Some ''8080'',
             path = ''/x''\<rparr>"]
    explicit_port_preserved[where parse = urlparse_examples
      and url = "''https://example.com:8443''" and h = "''example.com''" and t = "''8443''"
      and p = "\<lparr>scheme = ''https'', hostname = Some ''example.com'', port_text = Some ''8443'',
             path = ''''\<rparr>"]
    d1 d2
  show ?thesis by (simp add: v1 v2 urlparse_examples_def)
qed

text \<open>
  C7 as stated fails: the explicit port \<open>70000\<close> is not returned; the result is the
  invalid sentinel.
\<close>

theorem explicit_port_counterexample:
  "urlparse_examples ''http://example.com:70000/x'' =
     Inr \<lparr>scheme = ''http'', hostname = Some ''example.com'', port_text = Some ''70000'',
          path = ''/x''\<rparr>
   \<and> extract_hostname_port_uri urlparse_examples ''http://example.com:70000/x'' =
     Inr (HostInt (- 1), PortInt (- 1), '''')"
  by code_simp

text \<open>
  C8. When the parse raises, or finds no host (\<^verbatim>\<open>None\<close> or the empty string), the
  resolver returns \<open>(-1, -1, "")\<close>; nothing is raised. When the parse finds a host, the
  port can be read and the path is empty, the path returned is \<open>"/"\<close>.
\<close>

theorem malformed_target_sentinel:
  "(parse url = Inl e \<longrightarrow>
      extract_hostname_port_uri parse url = Inr (HostInt (- 1), PortInt (- 1), ''''))
   \<and> (parse url = Inr p \<and> (hostname p = None \<or> hostname p = Some '''') \<longrightarrow>
      extract_hostname_port_uri parse url = Inr (HostInt (- 1), PortInt (- 1), ''''))
   \<and> (parse url = Inr p \<and> hostname p = Some h \<and> h \<noteq> '''' \<and> port p = Inr q
        \<and> path p = '''' \<longrightarrow>
      (\<exists>pv. extract_hostname_port_uri parse url = Inr (HostStr h, pv, ''/'')))"
  by (auto simp: extract_hostname_port_uri_def extract_body_def invalid_sentinel_def Let_def
      split: sum.splits option.splits)

theorem malformed_target_sentinel_witness:
  "extract_hostname_port_uri urlparse_examples ''http://[::1'' =
     Inr (HostInt (- 1), PortInt (- 1), '''')
   \<and> extract_hostname_port_uri urlparse_examples '''' = Inr (HostInt (- 1), PortInt (- 1), '''')
   \<and> (\<exists>pv. extract_hostname_port_uri urlparse_examples ''https://example.com'' =
         Inr (HostStr ''example.com'', pv, ''/''))"
  using malformed_target_sentinel[of urlparse_examples "''http://[::1''"
      "PyExc ''ValueError'' ''Invalid IPv6 URL''" "\<lparr>scheme = '''', hostname = None,
        port_text = None, path = ''''\<rparr>" "''''" None]
    malformed_target_sentinel[of urlparse_examples "''''" "PyExc '''' ''''"
      "\<lparr>scheme = '''', hostname = None, port_text = None, path = ''''\<rparr>" "''''" None]
    malformed_target_sentinel[of urlparse_examples "''https://example.com''" "PyExc '''' ''''"
      "\<lparr>scheme = ''https'', hostname = Some ''example.com'', port_text = None,
        path = ''''\<rparr>" "''example.com''" None]
  by (simp add: urlparse_examples_def port_def)

text \<open>
  C10. When the text of the explicit port is a decimal number above \<open>65535\<close>, reading
  \<^verbatim>\<open>port\<close> raises \<^verbatim>\<open>ValueError\<close> (for the range, or for the digit limit of
  \<^verbatim>\<open>int\<close> when the text is longer than that) and the resolver returns
  \<open>(-1, -1, "")\<close>, whatever the host.
\<close>

theorem out_of_range_port_sentinel:
  assumes "parse url = Inr p" and "port_text p = Some t" and "isdigit t"
    and "65535 < int_of_digits t"
  shows "port p = Inl (PyExc ''ValueError''
            (if length t \<le> 4300 then ''Port out of range 0-65535''
             else digits_limit_message (length t)))
       \<and> extract_hostname_port_uri parse url = Inr (HostInt (- 1), PortInt (- 1), '''')"
  using assms
  by (simp add: extract_hostname_port_uri_def extract_body_def port_def invalid_sentinel_def
      int_max_str_digits_def)

theorem out_of_range_port_sentinel_witness:
  "port \<lparr>scheme = ''https'', hostname = Some ''example.com'', port_text = Some ''99999'',
          path = ''/''\<rparr> = Inl (PyExc ''ValueError'' ''Port out of range 0-65535'')
   \<and> extract_hostname_port_uri urlparse_examples ''https://example.com:99999/'' =
       Inr (HostInt (- 1), PortInt (- 1), '''')"
proof -
  have d: "isdigit ''99999''" and v: "int_of_digits ''99999'' = 99999"
    by (simp_all add: isdigit_def int_of_digits_def)
  from out_of_range_port_sentinel[where parse = urlparse_examples
      and url = "''https://example.com:99999/''" and t = "''99999''"
      and p = "\<lparr>scheme = ''https'', hostname = Some ''example.com'', port_text = Some ''99999'',
             path = ''/''\<rparr>"] d
  show ?thesis by (simp add: v urlparse_examples_def)
qed

end
